theory Spec2Isabelle
  imports Main "HOL-Library.Monad_Syntax"
begin

section \<open>Python values\<close>

text \<open>
  The crash context, the log entries and the bodies returned by the HTTP backends are
  Python dictionaries of dynamically typed values. They are modelled by one datatype of
  JSON-like values; a dictionary is an association list read with \<open>map_of\<close>. Numbers are
  integers (no claim depends on a fractional number).
\<close>

datatype json =
    JNull
  | JBool bool
  | JNum int
  | JStr string
  | JArr "json list"
  | JObj "(string \<times> json) list"

text \<open>Python truthiness: \<open>if x:\<close> and \<open>not x\<close>.\<close>

fun truthy :: "json \<Rightarrow> bool" where
  "truthy JNull = False"
| "truthy (JBool b) = b"
| "truthy (JNum n) = (n \<noteq> 0)"
| "truthy (JStr s) = (s \<noteq> [])"
| "truthy (JArr xs) = (xs \<noteq> [])"
| "truthy (JObj kvs) = (kvs \<noteq> [])"

text \<open>
  In the functions below a result \<open>None\<close> of type \<open>'a option\<close> stands for a Python
  exception that is raised at that point and propagates to the \<open>except Exception\<close> handler
  of the enclosing source function.
\<close>

text \<open>\<open>d.get(k, default)\<close>: raises AttributeError when \<open>d\<close> is not a dictionary.\<close>

fun py_get :: "json \<Rightarrow> string \<Rightarrow> json \<Rightarrow> json option" where
  "py_get (JObj kvs) k dflt = Some (case map_of kvs k of None \<Rightarrow> dflt | Some v \<Rightarrow> v)"
| "py_get _ k dflt = None"

text \<open>
  \<open>for x in v\<close>, \<open>list.extend(v)\<close>: a list gives its elements, a dictionary its keys, a
  string its characters; any other value raises TypeError.
\<close>

fun py_iter :: "json \<Rightarrow> json list option" where
  "py_iter (JArr xs) = Some xs"
| "py_iter (JObj kvs) = Some (map (\<lambda>kv. JStr (fst kv)) kvs)"
| "py_iter (JStr s) = Some (map (\<lambda>c. JStr [c]) s)"
| "py_iter _ = None"

fun is_dict :: "json \<Rightarrow> bool" where
  "is_dict (JObj kvs) = True"
| "is_dict _ = False"

subsection \<open>Strings\<close>

text \<open>\<open>s.rstrip('/')\<close>\<close>

definition rstrip_slash :: "string \<Rightarrow> string" where
  "rstrip_slash s = rev (dropWhile (\<lambda>c. c = CHR ''/'') (rev s))"

text \<open>
  \<open>s.strip()\<close> removes leading and trailing whitespace; the ASCII whitespace characters of
  Python's \<open>str.isspace\<close> are the space, \<open>\t \n \v \f \r\<close> and the separators 0x1C to 0x1F.
\<close>

definition py_space :: "char \<Rightarrow> bool" where
  "py_space c \<longleftrightarrow> c \<in> set [CHR '' '', CHR 0x09, CHR 0x0A, CHR 0x0B, CHR 0x0C, CHR 0x0D,
                            CHR 0x1C, CHR 0x1D, CHR 0x1E, CHR 0x1F]"

definition py_strip :: "string \<Rightarrow> string" where
  "py_strip s = rev (dropWhile py_space (rev (dropWhile py_space s)))"

text \<open>\<open>s.split(sep)\<close> for a one-character separator: never the empty list.\<close>

fun py_split :: "char \<Rightarrow> string \<Rightarrow> string list" where
  "py_split sep [] = [[]]"
| "py_split sep (c # cs) =
     (if c = sep then [] # py_split sep cs
      else (case py_split sep cs of
              [] \<Rightarrow> [[c]]
            | p # ps \<Rightarrow> (c # p) # ps))"

text \<open>\<open>s.lower()\<close> on ASCII letters.\<close>

definition py_lower_char :: "char \<Rightarrow> char" where
  "py_lower_char c =
     (case map_of (zip ''ABCDEFGHIJKLMNOPQRSTUVWXYZ'' ''abcdefghijklmnopqrstuvwxyz'') c of
        None \<Rightarrow> c
      | Some l \<Rightarrow> l)"

definition py_lower :: "string \<Rightarrow> string" where
  "py_lower s = map py_lower_char s"

text \<open>\<open>s.replace('Z', '+00:00')\<close>\<close>

definition replace_Z :: "string \<Rightarrow> string" where
  "replace_Z s = concat (map (\<lambda>c. if c = CHR ''Z'' then ''+00:00'' else [c]) s)"

text \<open>\<open>sub in s\<close> on strings: \<open>sub\<close> occurs in \<open>s\<close> as a contiguous substring.\<close>

fun py_substring :: "string \<Rightarrow> string \<Rightarrow> bool" where
  "py_substring sub [] = (sub = [])"
| "py_substring sub (c # cs) = (take (length sub) (c # cs) = sub \<or> py_substring sub cs)"

section \<open>The world outside the function\<close>

text \<open>
  Responses of the AWS SDK are typed by the service's API: a task definition with its
  container definitions, the names of log streams, and log events.
\<close>

record container_def =
  cd_name :: string
  cd_log_driver :: "string option"
  cd_options :: "(string \<times> string) list"

record log_event =
  ev_timestamp :: int
  ev_message :: string

text \<open>
  Everything the code reads from outside: the process environment, the replies of the
  three log backends and of the ECS control plane, the clock and the Python library
  functions it calls. A reply \<open>None\<close> is any exception raised by the request (transport
  error, time-out, HTTP error status, undecodable body).

  \<^item> \<open>es_post url username password task_arn\<close> is \<open>response.json()\<close> of the search request;
  \<^item> \<open>cx_post url api_key query\<close> is \<open>response.text\<close> of the DataPrime request;
  \<^item> \<open>ecs_describe_task_definition arn\<close> gives the container definitions;
  \<^item> \<open>logs_describe_prefix group prefix\<close> gives the stream names of
    \<open>describe_log_streams(logGroupName, logStreamNamePrefix, limit=1)\<close>;
  \<^item> \<open>logs_describe_recent group\<close> gives the stream names of
    \<open>describe_log_streams(logGroupName, orderBy='LastEventTime', descending=True, limit=50)\<close>;
  \<^item> \<open>logs_filter_events group stream\<close> gives the events of
    \<open>filter_log_events(logGroupName, logStreamNames=[stream], limit=100)\<close>;
  \<^item> \<open>clock i\<close> is \<open>int(datetime.now().timestamp() * 1000)\<close> as read while record \<open>i\<close> is
    converted;
  \<^item> \<open>iso_to_ms s\<close> is \<open>int(datetime.fromisoformat(s).timestamp() * 1000)\<close>, \<open>None\<close> when
    it raises;
  \<^item> \<open>json_loads s\<close> is \<open>json.loads(s)\<close>, \<open>None\<close> when it raises JSONDecodeError;
  \<^item> \<open>py_str v\<close> is \<open>str(v)\<close> for a value that is not a string.
\<close>

record world =
  environ :: "string \<rightharpoonup> string"
  es_post :: "string \<Rightarrow> string \<Rightarrow> string \<Rightarrow> json \<Rightarrow> json option"
  cx_post :: "string \<Rightarrow> string \<Rightarrow> string \<Rightarrow> string option"
  ecs_describe_task_definition :: "string \<Rightarrow> container_def list option"
  logs_describe_prefix :: "string \<Rightarrow> string \<Rightarrow> string list option"
  logs_describe_recent :: "string \<Rightarrow> string list option"
  logs_filter_events :: "string \<Rightarrow> string \<Rightarrow> log_event list option"
  clock :: "nat \<Rightarrow> int"
  iso_to_ms :: "string \<Rightarrow> int option"
  json_loads :: "string \<Rightarrow> json option"
  py_str :: "json \<Rightarrow> string"

text \<open>\<open>str(v)\<close> and the \<open>{v}\<close> of an f-string: a string is itself.\<close>

definition py_fmt :: "world \<Rightarrow> json \<Rightarrow> string" where
  "py_fmt w v = (case v of JStr s \<Rightarrow> s | _ \<Rightarrow> py_str w v)"

text \<open>\<open>os.environ.get(k)\<close> in a condition: set and not empty.\<close>

definition env_set :: "world \<Rightarrow> string \<Rightarrow> bool" where
  "env_set w k = (case environ w k of None \<Rightarrow> False | Some v \<Rightarrow> v \<noteq> [])"

text \<open>\<open>os.environ.get(k, default)\<close>\<close>

definition env_get :: "world \<Rightarrow> string \<Rightarrow> string \<Rightarrow> string" where
  "env_get w k dflt = (case environ w k of None \<Rightarrow> dflt | Some v \<Rightarrow> v)"

section \<open>The crash context and the network calls\<close>

text \<open>
  The network calls a run issues, in order. A call is recorded when the request is
  sent, whatever its outcome.
\<close>

datatype call =
    EsSearch string json
  | DataPrimeQuery string string
  | EcsDescribeTaskDefinition string
  | LogsDescribeLogStreamsPrefix string string
  | LogsDescribeLogStreamsRecent string
  | LogsFilterLogEvents string string

text \<open>
  The state threaded through log resolution: the dictionary \<open>crash_info\<close>, which the
  functions mutate in place, and the calls issued so far.
\<close>

record state =
  crash_info :: "string \<rightharpoonup> json"
  calls :: "call list"

text \<open>\<open>crash_info[k] = v\<close>\<close>

definition set_key :: "string \<Rightarrow> json \<Rightarrow> state \<Rightarrow> state" where
  "set_key k v s = s\<lparr>crash_info := (crash_info s)(k \<mapsto> v)\<rparr>"

definition issue :: "call \<Rightarrow> state \<Rightarrow> state" where
  "issue c s = s\<lparr>calls := calls s @ [c]\<rparr>"

text \<open>\<open>crash_info.get(k)\<close> and \<open>crash_info.get(k, default)\<close>\<close>

definition ci_get :: "state \<Rightarrow> string \<Rightarrow> json" where
  "ci_get s k = (case crash_info s k of None \<Rightarrow> JNull | Some v \<Rightarrow> v)"

definition ci_get_default :: "state \<Rightarrow> string \<Rightarrow> json \<Rightarrow> json" where
  "ci_get_default s k dflt = (case crash_info s k of None \<Rightarrow> dflt | Some v \<Rightarrow> v)"

section \<open>elasticsearch\_utils.py\<close>

text \<open>\<open>detect_log_destination\<close> (the one \<open>logs_utils\<close> imports): reads the environment only.\<close>

definition elasticsearch_configured :: "world \<Rightarrow> bool" where
  "elasticsearch_configured w \<longleftrightarrow>
     py_lower (env_get w ''ENABLE_ELASTICSEARCH_INTEGRATION'' ''false'') = ''true''
     \<and> env_set w ''ELASTICSEARCH_ENDPOINT''
     \<and> env_set w ''ELASTICSEARCH_USERNAME''
     \<and> env_set w ''ELASTICSEARCH_PASSWORD''"

definition coralogix_configured :: "world \<Rightarrow> bool" where
  "coralogix_configured w \<longleftrightarrow>
     py_lower (env_get w ''ENABLE_CORALOGIX_INTEGRATION'' ''false'') = ''true''
     \<and> env_set w ''CORALOGIX_API_KEY''
     \<and> env_set w ''CORALOGIX_REGION''"

definition detect_log_destination :: "world \<Rightarrow> string" where
  "detect_log_destination w =
     (if elasticsearch_configured w then ''elasticsearch''
      else if coralogix_configured w then ''coralogix''
      else ''cloudwatch'')"

text \<open>
  One hit of the search response becomes one log entry; \<open>hit.get('_source', {})\<close> and the
  \<open>source.get\<close> calls raise when the value is not a dictionary.
\<close>

definition es_log_entry :: "json \<Rightarrow> json option" where
  "es_log_entry hit = do {
     source \<leftarrow> py_get hit ''_source'' (JObj []);
     ts \<leftarrow> py_get source ''@timestamp'' (JStr []);
     msg \<leftarrow> py_get source ''message'' (JStr []);
     level \<leftarrow> py_get source ''level'' (JStr ''info'');
     container_name \<leftarrow> py_get source ''container_name'' (JStr []);
     src \<leftarrow> py_get source ''source'' (JStr []);
     ecs_cluster \<leftarrow> py_get source ''ecs_cluster'' (JStr []);
     ecs_task_arn \<leftarrow> py_get source ''ecs_task_arn'' (JStr []);
     ecs_task_definition \<leftarrow> py_get source ''ecs_task_definition'' (JStr []);
     app_name \<leftarrow> py_get source ''appName'' (JStr []);
     environment \<leftarrow> py_get source ''environment'' (JStr []);
     version \<leftarrow> py_get source ''version'' (JStr []);
     category_name \<leftarrow> py_get source ''categoryName'' (JStr []);
     code \<leftarrow> py_get source ''code'' (JStr []);
     Some (JObj [(''timestamp'', ts), (''message'', msg), (''level'', level),
                 (''container_name'', container_name), (''source'', src),
                 (''ecs_cluster'', ecs_cluster), (''ecs_task_arn'', ecs_task_arn),
                 (''ecs_task_definition'', ecs_task_definition), (''app_name'', app_name),
                 (''environment'', environment), (''version'', version),
                 (''category_name'', category_name), (''code'', code),
                 (''raw_log'', source)])
   }"

text \<open>The body of the \<open>try\<close> after the response has arrived.\<close>

definition es_log_entries :: "json \<Rightarrow> json list option" where
  "es_log_entries result = do {
     outer \<leftarrow> py_get result ''hits'' (JObj []);
     inner \<leftarrow> py_get outer ''hits'' (JArr []);
     hits \<leftarrow> py_iter inner;
     those (map es_log_entry hits)
   }"

definition get_elasticsearch_logs :: "world \<Rightarrow> state \<Rightarrow> json list \<times> state" where
  "get_elasticsearch_logs w s =
     (if \<not> env_set w ''ELASTICSEARCH_ENDPOINT'' \<or> \<not> env_set w ''ELASTICSEARCH_USERNAME''
         \<or> \<not> env_set w ''ELASTICSEARCH_PASSWORD''
      then ([], s)
      else let task_arn = ci_get s ''task_arn'' in
        if \<not> truthy task_arn then ([], s)
        else
          let s1 = set_key ''log_source'' (JStr ''elasticsearch'') s;
              url = rstrip_slash (env_get w ''ELASTICSEARCH_ENDPOINT'' []) @ ''/_search'';
              s2 = issue (EsSearch url task_arn) s1
          in (case es_post w url (env_get w ''ELASTICSEARCH_USERNAME'' [])
                     (env_get w ''ELASTICSEARCH_PASSWORD'' []) task_arn \<bind> es_log_entries of
                None \<Rightarrow> ([], s2)
              | Some log_entries \<Rightarrow>
                  (log_entries,
                   set_key ''logs_count'' (JNum (int (length log_entries)))
                     (set_key ''recent_logs'' (JArr log_entries) s2))))"

section \<open>coralogix\_utils.py\<close>

text \<open>\<open>'results' in r\<close>: key of a dictionary, substring of a string, element of a list.\<close>

fun contains_results :: "json \<Rightarrow> bool option" where
  "contains_results (JObj kvs) = Some (map_of kvs ''results'' \<noteq> None)"
| "contains_results (JStr t) = Some (py_substring ''results'' t)"
| "contains_results (JArr xs) = Some (JStr ''results'' \<in> set xs)"
| "contains_results _ = None"

text \<open>\<open>r['results']\<close>: only a dictionary can be indexed by a string.\<close>

fun index_results :: "json \<Rightarrow> json option" where
  "index_results (JObj kvs) = map_of kvs ''results''"
| "index_results _ = None"

text \<open>
  The loop over the lines of the response. A line that is not JSON is skipped. A line
  that is JSON has its \<open>keys()\<close> printed, so it must be a dictionary; after
  \<open>logs.extend(current_logs)\<close> the keys of the first three collected records are printed,
  so these must be dictionaries too.
\<close>

fun cx_collect :: "world \<Rightarrow> string list \<Rightarrow> json list \<Rightarrow> json list option" where
  "cx_collect w [] logs = Some logs"
| "cx_collect w (line # rest) logs =
     (case json_loads w line of
        None \<Rightarrow> cx_collect w rest logs
      | Some line_data \<Rightarrow>
          (case line_data of
             JObj kvs \<Rightarrow>
               (case map_of kvs ''result'' of
                  None \<Rightarrow> cx_collect w rest logs
                | Some r \<Rightarrow>
                    (case contains_results r of
                       None \<Rightarrow> None
                     | Some False \<Rightarrow> cx_collect w rest logs
                     | Some True \<Rightarrow>
                         (case index_results r \<bind> py_iter of
                            None \<Rightarrow> None
                          | Some current_logs \<Rightarrow>
                              if list_all is_dict (take 3 (logs @ current_logs))
                              then cx_collect w rest (logs @ current_logs)
                              else None)))
           | _ \<Rightarrow> None))"

text \<open>
  The precedence \<open>message\<close>, \<open>log\<close>, whole dictionary, applied to \<open>data\<close> or to the parsed
  \<open>userData\<close>.
\<close>

definition cx_pick_message :: "world \<Rightarrow> json \<Rightarrow> string option" where
  "cx_pick_message w d = do {
     extracted_message \<leftarrow> py_get d ''message'' JNull;
     extracted_log \<leftarrow> py_get d ''log'' JNull;
     Some (if extracted_message \<noteq> JNull \<and> extracted_message \<noteq> JStr [] then py_fmt w extracted_message
           else if extracted_log \<noteq> JNull \<and> extracted_log \<noteq> JStr [] then py_fmt w extracted_log
           else py_fmt w d)
   }"

definition cx_message :: "world \<Rightarrow> json \<Rightarrow> string option" where
  "cx_message w log = do {
     user_data \<leftarrow> py_get log ''userData'' (JStr ''{}'');
     log_data \<leftarrow> py_get log ''data'' (JObj []);
     if truthy log_data then cx_pick_message w log_data
     else (case user_data of
             JStr u \<Rightarrow>
               (case json_loads w u of
                  None \<Rightarrow> Some (if truthy user_data then py_fmt w user_data else py_fmt w log)
                | Some parsed_data \<Rightarrow> cx_pick_message w parsed_data)
           | _ \<Rightarrow> Some (if truthy user_data then py_fmt w user_data else py_fmt w log))
   }"

text \<open>
  The loop over \<open>log.get('metadata', [])\<close>: the value of the first pair whose key is
  \<open>timestamp\<close>, \<open>None\<close> (here \<open>JNull\<close>) when there is none.
\<close>

fun cx_timestamp_str :: "json list \<Rightarrow> json option" where
  "cx_timestamp_str [] = Some JNull"
| "cx_timestamp_str (meta # rest) = do {
     k \<leftarrow> py_get meta ''key'' JNull;
     if k = JStr ''timestamp'' then py_get meta ''value'' JNull else cx_timestamp_str rest
   }"

text \<open>
  The conversion to milliseconds. \<open>timestamp_str.replace\<close> raises on a value that is not a
  string and \<open>fromisoformat\<close> on a string it cannot parse; both are caught by the inner
  handler, which reads the clock.
\<close>

definition cx_timestamp_ms :: "world \<Rightarrow> nat \<Rightarrow> json \<Rightarrow> int" where
  "cx_timestamp_ms w i timestamp_str =
     (if truthy timestamp_str
      then (case timestamp_str of
              JStr t \<Rightarrow> (case iso_to_ms w (replace_Z t) of Some ms \<Rightarrow> ms | None \<Rightarrow> clock w i)
            | _ \<Rightarrow> clock w i)
      else clock w i)"

definition cx_log_entry :: "world \<Rightarrow> nat \<Rightarrow> json \<Rightarrow> json option" where
  "cx_log_entry w i log =
     (if \<not> is_dict log then None
      else do {
        message \<leftarrow> cx_message w log;
        metadata \<leftarrow> py_get log ''metadata'' (JArr []);
        metas \<leftarrow> py_iter metadata;
        timestamp_str \<leftarrow> cx_timestamp_str metas;
        Some (JObj [(''timestamp'', JNum (cx_timestamp_ms w i timestamp_str)),
                    (''message'', JStr message)])
      })"

text \<open>\<open>x['timestamp']\<close> of an entry, the sort key.\<close>

definition entry_timestamp :: "json \<Rightarrow> json option" where
  "entry_timestamp e = (case e of JObj kvs \<Rightarrow> map_of kvs ''timestamp'' | _ \<Rightarrow> None)"

definition entry_ms :: "json \<Rightarrow> int" where
  "entry_ms e = (case entry_timestamp e of Some (JNum n) \<Rightarrow> n | _ \<Rightarrow> 0)"

text \<open>
  The body of the \<open>try\<close> after the response has arrived. \<open>sort(key, reverse=True)\<close> is
  stable: entries are ordered by descending timestamp, equal ones in their first order.
\<close>

definition cx_log_entries :: "world \<Rightarrow> string \<Rightarrow> json list option" where
  "cx_log_entries w response_text = do {
     logs \<leftarrow> cx_collect w
       (filter (\<lambda>line. line \<noteq> []) (map py_strip (py_split (CHR 0x0A) (py_strip response_text)))) [];
     if logs = [] then Some []
     else do {
       log_entries \<leftarrow> those (map (\<lambda>(i, log). cx_log_entry w i log) (enumerate 0 logs));
       Some (sort_key (\<lambda>e. - entry_ms e) log_entries)
     }
   }"

definition cx_query :: "world \<Rightarrow> json \<Rightarrow> json \<Rightarrow> string" where
  "cx_query w service_name task_arn =
     ''source logs last 1h | filter $l.subsystemname ~ '' @ [CHR 0x27] @ py_fmt w service_name
     @ [CHR 0x27] @ '' | filter $d.ecs_task_arn ~ '' @ [CHR 0x27] @ py_fmt w task_arn
     @ [CHR 0x27] @ '' | limit 50''"

definition get_coralogix_logs :: "world \<Rightarrow> state \<Rightarrow> json list \<times> state" where
  "get_coralogix_logs w s =
     (if \<not> env_set w ''CORALOGIX_API_KEY'' \<or> \<not> env_set w ''CORALOGIX_REGION'' then ([], s)
      else let task_arn = ci_get_default s ''task_arn'' (JStr []) in
        if \<not> truthy task_arn then ([], s)
        else
          let s1 = set_key ''log_source'' (JStr ''coralogix'') s in
          (case crash_info s1 ''service_name'' of
             None \<Rightarrow> ([], s1)
           | Some service_name \<Rightarrow>
               let query = cx_query w service_name task_arn;
                   url = ''https://api.'' @ env_get w ''CORALOGIX_REGION'' []
                         @ ''.coralogix.com/api/v1/dataprime/query'';
                   s2 = issue (DataPrimeQuery url query) s1
               in (case cx_post w url (env_get w ''CORALOGIX_API_KEY'' []) query
                         \<bind> cx_log_entries w of
                     None \<Rightarrow> ([], s2)
                   | Some log_entries \<Rightarrow> (log_entries, s2))))"

section \<open>ecs\_utils.py\<close>

text \<open>\<open>failed_container.get('name', '') if failed_container else ''\<close>\<close>

definition failed_container_name :: "state \<Rightarrow> json option" where
  "failed_container_name s =
     (let failed_container = ci_get_default s ''failed_container'' (JObj []) in
      if truthy failed_container then py_get failed_container ''name'' (JStr [])
      else Some (JStr []))"

text \<open>The loop over the container definitions: the first one with the container's name decides.\<close>

fun find_log_config :: "container_def list \<Rightarrow> json \<Rightarrow> (string \<times> string) list option" where
  "find_log_config [] container_name = None"
| "find_log_config (d # ds) container_name =
     (if JStr (cd_name d) = container_name
      then (if cd_log_driver d = Some ''awslogs'' then Some (cd_options d) else None)
      else find_log_config ds container_name)"

text \<open>
  A \<open>task_definition_arn\<close> that is not a string is refused by the SDK's parameter
  validation before a request is sent.
\<close>

definition get_log_configuration_from_task_def ::
  "world \<Rightarrow> state \<Rightarrow> (string \<times> string) list option \<times> state" where
  "get_log_configuration_from_task_def w s =
     (let task_def_arn = ci_get s ''task_definition_arn'' in
      if \<not> truthy task_def_arn then (None, s)
      else (case task_def_arn of
              JStr arn \<Rightarrow>
                let s1 = issue (EcsDescribeTaskDefinition arn) s in
                (case ecs_describe_task_definition w arn of
                   None \<Rightarrow> (None, s1)
                 | Some container_definitions \<Rightarrow>
                     (case failed_container_name s1 of
                        None \<Rightarrow> (None, s1)
                      | Some container_name \<Rightarrow>
                          if \<not> truthy container_name then (None, s1)
                          else (find_log_config container_definitions container_name, s1)))
            | _ \<Rightarrow> (None, s)))"

section \<open>logs\_utils.py\<close>

text \<open>\<open>log_config.get(k, '')\<close> on the \<open>awslogs\<close> options.\<close>

definition option_get :: "(string \<times> string) list \<Rightarrow> string \<Rightarrow> string" where
  "option_get log_config k = (case map_of log_config k of None \<Rightarrow> [] | Some v \<Rightarrow> v)"

definition cloudwatch_entry :: "log_event \<Rightarrow> json" where
  "cloudwatch_entry event =
     JObj [(''timestamp'', JNum (ev_timestamp event)),
           (''message'', JStr (py_strip (ev_message event)))]"

definition get_logs_from_stream :: "world \<Rightarrow> state \<Rightarrow> string \<Rightarrow> string \<Rightarrow> json list \<times> state" where
  "get_logs_from_stream w s log_group log_stream =
     (let s1 = issue (LogsFilterLogEvents log_group log_stream) s in
      case logs_filter_events w log_group log_stream of
        None \<Rightarrow> ([], s1)
      | Some events \<Rightarrow> (if events = [] then [] else map cloudwatch_entry events, s1))"

definition get_logs_with_config ::
  "world \<Rightarrow> state \<Rightarrow> (string \<times> string) list \<Rightarrow> string \<Rightarrow> json list \<times> state" where
  "get_logs_with_config w s log_config task_id =
     (let log_group = option_get log_config ''awslogs-group'';
          stream_prefix = option_get log_config ''awslogs-stream-prefix''
      in if log_group = [] then ([], s)
         else (case failed_container_name s of
                 None \<Rightarrow> ([], s)
               | Some container_name \<Rightarrow>
                   if \<not> truthy container_name then ([], s)
                   else
                     let log_stream =
                           (if stream_prefix \<noteq> []
                            then stream_prefix @ ''/'' @ py_fmt w container_name @ ''/'' @ task_id
                            else py_fmt w container_name @ ''/'' @ task_id);
                         s1 = issue (LogsDescribeLogStreamsPrefix log_group log_stream) s
                     in (case logs_describe_prefix w log_group log_stream of
                           None \<Rightarrow> ([], s1)
                         | Some [] \<Rightarrow>
                             let s2 = issue (LogsDescribeLogStreamsRecent log_group) s1 in
                             (case logs_describe_recent w log_group of
                                None \<Rightarrow> ([], s2)
                              | Some streams \<Rightarrow>
                                  (case filter (py_substring task_id) streams of
                                     [] \<Rightarrow> ([], s2)
                                   | matching # _ \<Rightarrow> get_logs_from_stream w s2 log_group matching))
                         | Some (actual_stream # _) \<Rightarrow>
                             get_logs_from_stream w s1 log_group actual_stream)))"

text \<open>
  \<open>task_arn.split('/')[-1]\<close> raises on a task ARN that is not a string; the handler
  returns the empty list.
\<close>

definition get_cloudwatch_logs :: "world \<Rightarrow> state \<Rightarrow> json list \<times> state" where
  "get_cloudwatch_logs w s =
     (let failed_container = ci_get s ''failed_container'' in
      if \<not> truthy failed_container then ([], s)
      else (case py_get failed_container ''name'' (JStr []) of
              None \<Rightarrow> ([], s)
            | Some container_name \<Rightarrow>
                let task_arn = ci_get_default s ''task_arn'' (JStr []) in
                if \<not> truthy container_name \<or> \<not> truthy task_arn then ([], s)
                else (case task_arn of
                        JStr arn \<Rightarrow>
                          let task_id = last (py_split CHR ''/'' arn) in
                          (case get_log_configuration_from_task_def w s of
                             (None, s1) \<Rightarrow> ([], s1)
                           | (Some log_config, s1) \<Rightarrow>
                               if log_config = [] then ([], s1)
                               else (case get_logs_with_config w s1 log_config task_id of
                                       (logs, s2) \<Rightarrow>
                                         if logs \<noteq> []
                                         then (logs, set_key ''log_source'' (JStr ''cloudwatch'') s2)
                                         else ([], s2)))
                      | _ \<Rightarrow> ([], s))))"

text \<open>
  \<open>get_recent_logs\<close>: the three \<open>if\<close> blocks of the source in their order. The adapters
  catch every exception themselves, so the function's own handler is never entered.
\<close>

definition get_recent_logs :: "world \<Rightarrow> state \<Rightarrow> json list \<times> state" where
  "get_recent_logs w s =
     (if \<not> truthy (ci_get s ''failed_container'') then ([], s)
      else
        let log_destination = detect_log_destination w;
            (es_logs, s1) = (if log_destination = ''elasticsearch''
                             then get_elasticsearch_logs w s else ([], s))
        in if log_destination = ''elasticsearch'' \<and> es_logs \<noteq> []
           then (es_logs, set_key ''log_source'' (JStr ''elasticsearch'') s1)
           else
             let (cx_logs, s2) = (if log_destination = ''coralogix''
                                  then get_coralogix_logs w s1 else ([], s1))
             in if log_destination = ''coralogix'' \<and> cx_logs \<noteq> []
                then (cx_logs, set_key ''log_source'' (JStr ''coralogix'') s2)
                else if log_destination = ''cloudwatch''
                        \<or> log_destination \<in> set [''coralogix'', ''elasticsearch'']
                then (case get_cloudwatch_logs w s2 of
                        (logs, s3) \<Rightarrow>
                          (logs,
                           if logs \<noteq> [] \<and> crash_info s3 ''log_source''
                                 \<notin> set [Some (JStr ''coralogix''), Some (JStr ''elasticsearch'')]
                           then set_key ''log_source'' (JStr ''cloudwatch'') s3
                           else s3))
                else ([], s2))"

section \<open>The backends of the cascade\<close>

text \<open>
  The three backends, the value each writes to \<open>crash_info['log_source']\<close>, the function
  that queries each, and the backend on whose behalf a network call is made (the
  CloudWatch adapter reads the task definition from the ECS control plane).
\<close>

datatype backend = SearchEngine | DataPrime | CloudWatch

fun backend_name :: "backend \<Rightarrow> string" where
  "backend_name SearchEngine = ''elasticsearch''"
| "backend_name DataPrime = ''coralogix''"
| "backend_name CloudWatch = ''cloudwatch''"

fun adapter :: "world \<Rightarrow> backend \<Rightarrow> state \<Rightarrow> json list \<times> state" where
  "adapter w SearchEngine = get_elasticsearch_logs w"
| "adapter w DataPrime = get_coralogix_logs w"
| "adapter w CloudWatch = get_cloudwatch_logs w"

fun backend_of_call :: "call \<Rightarrow> backend" where
  "backend_of_call (EsSearch url task_arn) = SearchEngine"
| "backend_of_call (DataPrimeQuery url query) = DataPrime"
| "backend_of_call (EcsDescribeTaskDefinition arn) = CloudWatch"
| "backend_of_call (LogsDescribeLogStreamsPrefix g p) = CloudWatch"
| "backend_of_call (LogsDescribeLogStreamsRecent g) = CloudWatch"
| "backend_of_call (LogsFilterLogEvents g st) = CloudWatch"

text \<open>The backend \<open>detect_log_destination\<close> names.\<close>

definition primary_backend :: "world \<Rightarrow> backend" where
  "primary_backend w =
     (if detect_log_destination w = ''elasticsearch'' then SearchEngine
      else if detect_log_destination w = ''coralogix'' then DataPrime
      else CloudWatch)"

text \<open>
  From \<open>s\<close> to \<open>s'\<close> calls were only added, and every added call belongs to backend \<open>b\<close>.
\<close>

definition issued_only :: "backend \<Rightarrow> state \<Rightarrow> state \<Rightarrow> bool" where
  "issued_only b s s' \<longleftrightarrow>
     (\<exists>cs. calls s' = calls s @ cs \<and> (\<forall>c\<in>set cs. backend_of_call c = b))"


section \<open>A concrete deployment\<close>

text \<open>
  A world in which both the search-engine and the DataPrime backend are configured and
  enabled, and a crash of container \<open>web\<close> of task \<open>abc123\<close>. The search request finds no
  hit; the DataPrime request would return two records; the task definition sends the
  container's output to the log group \<open>/ecs/app\<close> with stream prefix \<open>ecs\<close>. The body of
  the DataPrime response has two lines, written here by name; \<open>json_loads\<close> gives the
  value each line parses to.
\<close>

definition demo_crash_info :: "string \<rightharpoonup> json" where
  "demo_crash_info = map_of
     [(''task_arn'', JStr ''arn:aws:ecs:us-east-1:123456789012:task/prod/abc123''),
      (''service_name'', JStr ''web''),
      (''task_definition_arn'', JStr ''arn:aws:ecs:us-east-1:123456789012:task-definition/web:7''),
      (''failed_container'', JObj [(''name'', JStr ''web''), (''exitCode'', JNum 137)])]"

definition demo_state :: state where
  "demo_state = \<lparr>crash_info = demo_crash_info, calls = []\<rparr>"

text \<open>The same crash with an empty task ARN, as \<open>extract_crash_info\<close> leaves it when the event has none.\<close>

definition no_task_state :: state where
  "no_task_state = \<lparr>crash_info = demo_crash_info(''task_arn'' \<mapsto> JStr []), calls = []\<rparr>"

text \<open>The same crash with no \<open>task_arn\<close> key at all.\<close>

definition absent_task_state :: state where
  "absent_task_state = \<lparr>crash_info = demo_crash_info(''task_arn'' := None), calls = []\<rparr>"

definition demo_record :: json where
  "demo_record = JObj
     [(''metadata'', JArr [JObj [(''key'', JStr ''severity''), (''value'', JStr ''5'')],
                           JObj [(''key'', JStr ''timestamp''),
                                 (''value'', JStr ''2025-09-21T09:59:32.100026178'')]]),
      (''data'', JObj [(''message'', JStr []), (''log'', JStr ''boom'')])]"

definition demo_record_no_ts :: json where
  "demo_record_no_ts = JObj [(''data'', JObj [(''message'', JStr ''started'')])]"

definition demo_world :: world where
  "demo_world = \<lparr>
     environ = map_of
       [(''ENABLE_ELASTICSEARCH_INTEGRATION'', ''true''),
        (''ELASTICSEARCH_ENDPOINT'', ''https://es.example.com/''),
        (''ELASTICSEARCH_USERNAME'', ''elastic''),
        (''ELASTICSEARCH_PASSWORD'', ''secret''),
        (''ENABLE_CORALOGIX_INTEGRATION'', ''True''),
        (''CORALOGIX_API_KEY'', ''key''),
        (''CORALOGIX_REGION'', ''eu2'')],
     es_post = (\<lambda>url username password task_arn. Some (JObj [(''hits'', JObj [(''hits'', JArr [])])])),
     cx_post = (\<lambda>url api_key query. Some (''queryId'' @ [CHR 0x0A] @ ''results'' @ [CHR 0x0A])),
     ecs_describe_task_definition = (\<lambda>arn. Some
       [\<lparr>cd_name = ''web'', cd_log_driver = Some ''awslogs'',
         cd_options = [(''awslogs-group'', ''/ecs/app''), (''awslogs-region'', ''us-east-1''),
                       (''awslogs-stream-prefix'', ''ecs'')]\<rparr>]),
     logs_describe_prefix = (\<lambda>log_group prefix. Some [prefix]),
     logs_describe_recent = (\<lambda>log_group. Some []),
     logs_filter_events = (\<lambda>log_group log_stream. Some
       [\<lparr>ev_timestamp = 1758448770000, ev_message = ''exit 137 ''\<rparr>]),
     clock = (\<lambda>i. 1758448800000 + int i),
     iso_to_ms = (\<lambda>t. if t = ''2025-09-21T09:59:32.100026178'' then Some 1758448772100 else None),
     json_loads = (\<lambda>line.
       if line = ''queryId'' then Some (JObj [(''queryId'', JObj [(''queryId'', JStr ''q1'')])])
       else if line = ''results''
       then Some (JObj [(''result'', JObj [(''results'', JArr [demo_record, demo_record_no_ts])])])
       else None),
     py_str = (\<lambda>v. ''?'')\<rparr>"

text \<open>
  The same deployment when the search request finds two hits: one with an ISO-8601
  \<open>@timestamp\<close>, one without \<open>@timestamp\<close>.
\<close>

definition es_hits_world :: world where
  "es_hits_world = demo_world\<lparr>es_post := (\<lambda>url username password task_arn. Some (JObj
     [(''hits'', JObj [(''hits'', JArr
        [JObj [(''_source'', JObj [(''@timestamp'', JStr ''2025-09-21T09:59:32.100Z''),
                                   (''message'', JStr ''boom'')])],
         JObj [(''_source'', JObj [(''message'', JStr ''no time'')])]])])]))\<rparr>"


section \<open>The adapters\<close>

subsection \<open>State\<close>

lemma set_key_same: "crash_info s k = Some v \<Longrightarrow> set_key k v s = s"
  by (simp add: set_key_def map_upd_triv)

lemma crash_info_set_key [simp]: "crash_info (set_key k v s) = (crash_info s)(k \<mapsto> v)"
  by (simp add: set_key_def)

lemma calls_set_key [simp]: "calls (set_key k v s) = calls s"
  by (simp add: set_key_def)

lemma crash_info_issue [simp]: "crash_info (issue c s) = crash_info s"
  by (simp add: issue_def)

lemma calls_issue [simp]: "calls (issue c s) = calls s @ [c]"
  by (simp add: issue_def)

lemma ci_get_set_key [simp]: "ci_get (set_key k v s) k' = (if k' = k then v else ci_get s k')"
  by (simp add: ci_get_def)

lemma ci_get_issue [simp]: "ci_get (issue c s) k = ci_get s k"
  by (simp add: ci_get_def)

lemma issued_only_refl: "issued_only b s s"
  by (simp add: issued_only_def)

lemma issued_only_trans:
  "issued_only b s s1 \<Longrightarrow> issued_only b s1 s2 \<Longrightarrow> issued_only b s s2"
  by (auto simp: issued_only_def)

lemma issued_only_issue:
  "backend_of_call c = b \<Longrightarrow> issued_only b s s1 \<Longrightarrow> issued_only b s (issue c s1)"
  by (auto simp: issued_only_def)

lemma issued_only_set_key:
  "issued_only b s s1 \<Longrightarrow> issued_only b s (set_key k v s1)"
  by (auto simp: issued_only_def)

lemmas issued_only_intros =
  issued_only_refl issued_only_issue issued_only_set_key

subsection \<open>Search engine\<close>

lemma es_hint:
  assumes "get_elasticsearch_logs w s = (logs, s1)" and "logs \<noteq> []"
  shows "crash_info s1 ''log_source'' = Some (JStr ''elasticsearch'')"
  using assms
  by (auto simp: get_elasticsearch_logs_def Let_def split: if_splits option.splits)

lemma es_calls: "issued_only SearchEngine s (snd (get_elasticsearch_logs w s))"
  by (auto simp: get_elasticsearch_logs_def Let_def intro!: issued_only_intros
           split: option.splits)

lemma es_no_task:
  "\<not> truthy (ci_get s ''task_arn'') \<Longrightarrow> get_elasticsearch_logs w s = ([], s)"
  by (simp add: get_elasticsearch_logs_def Let_def)

lemma ci_get_default_falsy:
  "\<not> truthy (ci_get s k) \<Longrightarrow> \<not> truthy dflt \<Longrightarrow> \<not> truthy (ci_get_default s k dflt)"
  by (auto simp: ci_get_def ci_get_default_def split: option.splits)

subsection \<open>DataPrime\<close>

lemma cx_hint:
  assumes "get_coralogix_logs w s = (logs, s1)" and "logs \<noteq> []"
  shows "crash_info s1 ''log_source'' = Some (JStr ''coralogix'')"
  using assms
  by (auto simp: get_coralogix_logs_def Let_def split: if_splits option.splits)

lemma cx_calls: "issued_only DataPrime s (snd (get_coralogix_logs w s))"
  by (auto simp: get_coralogix_logs_def Let_def intro!: issued_only_intros
           split: option.splits)

lemma cx_no_task:
  "\<not> truthy (ci_get s ''task_arn'') \<Longrightarrow> get_coralogix_logs w s = ([], s)"
  using ci_get_default_falsy [of s "''task_arn''" "JStr []"]
  by (simp add: get_coralogix_logs_def Let_def)

subsection \<open>CloudWatch\<close>

lemma from_stream_calls:
  "issued_only CloudWatch s s1 \<Longrightarrow>
   issued_only CloudWatch s (snd (get_logs_from_stream w s1 g st))"
  by (auto simp: get_logs_from_stream_def Let_def intro!: issued_only_intros
           split: option.splits)

lemma from_stream_crash_info:
  "crash_info (snd (get_logs_from_stream w s g st)) = crash_info s"
  by (auto simp: get_logs_from_stream_def Let_def split: option.splits)

lemma with_config_calls:
  "issued_only CloudWatch s s1 \<Longrightarrow>
   issued_only CloudWatch s (snd (get_logs_with_config w s1 cfg tid))"
  by (auto simp: get_logs_with_config_def Let_def
           intro!: issued_only_intros from_stream_calls
           split: option.splits list.splits)

lemma with_config_crash_info:
  "crash_info (snd (get_logs_with_config w s cfg tid)) = crash_info s"
  by (auto simp: get_logs_with_config_def Let_def from_stream_crash_info
           split: option.splits list.splits)

lemma log_configuration_calls:
  "issued_only CloudWatch s (snd (get_log_configuration_from_task_def w s))"
  by (auto simp: get_log_configuration_from_task_def_def Let_def
           intro!: issued_only_intros
           split: option.splits json.splits)

lemma log_configuration_crash_info:
  "crash_info (snd (get_log_configuration_from_task_def w s)) = crash_info s"
  by (auto simp: get_log_configuration_from_task_def_def Let_def
           split: option.splits json.splits)

lemma cw_calls: "issued_only CloudWatch s (snd (get_cloudwatch_logs w s))"
proof -
  obtain cfg s1 where c1: "get_log_configuration_from_task_def w s = (cfg, s1)"
    by (cases "get_log_configuration_from_task_def w s")
  have one: "issued_only CloudWatch s s1"
    using log_configuration_calls [of s w] c1 by simp
  have rest: "issued_only CloudWatch s s2"
    if "get_logs_with_config w s1 lc tid = (logs, s2)" for lc tid logs s2
    using with_config_calls [OF one, of w lc tid] that by simp
  show ?thesis
    using one
    by (auto simp: get_cloudwatch_logs_def Let_def c1
             intro!: issued_only_intros intro: rest
             split: option.splits json.splits prod.splits)
qed

lemma cw_hint:
  assumes "get_cloudwatch_logs w s = (logs, s1)" and "logs \<noteq> []"
  shows "crash_info s1 ''log_source'' = Some (JStr ''cloudwatch'')"
  using assms
  by (auto simp: get_cloudwatch_logs_def Let_def
           split: if_splits option.splits json.splits prod.splits)

lemma cw_no_task:
  "\<not> truthy (ci_get s ''task_arn'') \<Longrightarrow> get_cloudwatch_logs w s = ([], s)"
  using ci_get_default_falsy [of s "''task_arn''" "JStr []"]
  by (simp add: get_cloudwatch_logs_def Let_def split: option.splits)

subsection \<open>The orchestrator\<close>

lemma detect_cases:
  "detect_log_destination w = ''elasticsearch'' \<or> detect_log_destination w = ''coralogix''
   \<or> detect_log_destination w = ''cloudwatch''"
  by (simp add: detect_log_destination_def)

lemma recent_logs_cascade:
  "get_recent_logs w s =
     (if \<not> truthy (ci_get s ''failed_container'') then ([], s)
      else if primary_backend w = CloudWatch then get_cloudwatch_logs w s
      else if fst (adapter w (primary_backend w) s) \<noteq> [] then adapter w (primary_backend w) s
      else get_cloudwatch_logs w (snd (adapter w (primary_backend w) s)))"
proof -
  have cw: "(case get_cloudwatch_logs w s0 of
               (logs, s3) \<Rightarrow>
                 (logs, if logs \<noteq> [] \<and> crash_info s3 ''log_source''
                             \<notin> set [Some (JStr ''coralogix''), Some (JStr ''elasticsearch'')]
                        then set_key ''log_source'' (JStr ''cloudwatch'') s3 else s3))
            = get_cloudwatch_logs w s0" for s0
  proof (cases "get_cloudwatch_logs w s0")
    case (Pair logs s3)
    then show ?thesis
      using cw_hint [OF Pair] by (auto simp: set_key_same)
  qed
  have es: "(es_logs, set_key ''log_source'' (JStr ''elasticsearch'') s1) = (es_logs, s1)"
    if "get_elasticsearch_logs w s = (es_logs, s1)" "es_logs \<noteq> []" for es_logs s1
    using es_hint [OF that] by (simp add: set_key_same)
  have cx: "(cx_logs, set_key ''log_source'' (JStr ''coralogix'') s1) = (cx_logs, s1)"
    if "get_coralogix_logs w s = (cx_logs, s1)" "cx_logs \<noteq> []" for cx_logs s1
    using cx_hint [OF that] by (simp add: set_key_same)
  consider (e) "detect_log_destination w = ''elasticsearch''"
     | (c) "detect_log_destination w = ''coralogix''"
     | (w) "detect_log_destination w = ''cloudwatch''"
    using detect_cases by blast
  then show ?thesis
  proof cases
    case e
    show ?thesis
    proof (cases "get_elasticsearch_logs w s")
      case (Pair es_logs s1)
      show ?thesis
        unfolding get_recent_logs_def primary_backend_def e Let_def cw
        using es [OF Pair] by (simp add: Pair)
    qed
  next
    case c
    show ?thesis
    proof (cases "get_coralogix_logs w s")
      case (Pair cx_logs s1)
      show ?thesis
        unfolding get_recent_logs_def primary_backend_def c Let_def cw
        using cx [OF Pair] by (simp add: Pair)
    qed
  next
    case w
    show ?thesis
      unfolding get_recent_logs_def primary_backend_def w Let_def cw
      by simp
  qed
qed

lemma t1: "map backend_of_call (calls (snd (get_recent_logs demo_world demo_state)))
        = [SearchEngine, CloudWatch, CloudWatch, CloudWatch]"
  by code_simp

lemma t2: "elasticsearch_configured demo_world \<and> coralogix_configured demo_world
  \<and> truthy (ci_get demo_state ''task_arn'')
  \<and> fst (get_elasticsearch_logs demo_world demo_state) = []
  \<and> fst (get_coralogix_logs demo_world demo_state) \<noteq> []"
  by code_simp

lemma t3: "map entry_timestamp (fst (get_elasticsearch_logs es_hits_world demo_state))
        = [Some (JStr ''2025-09-21T09:59:32.100Z''), Some (JStr [])]"
  by code_simp

lemma t4: "crash_info (snd (get_recent_logs es_hits_world demo_state)) ''log_source'' = Some (JStr ''elasticsearch'')"
  by code_simp

lemma t5: "\<not> truthy (ci_get no_task_state ''task_arn'')"
  by code_simp

subsection \<open>Timestamps of the entries\<close>











section \<open>The claims\<close>

text \<open>
  \<^bold>\<open>C1\<close>, as the code has it. For every crash context with a failed container,
  \<open>get_recent_logs\<close> attempts one primary backend and then CloudWatch: the primary backend is
  the search engine when that is configured and enabled, else DataPrime when that is
  configured and enabled, else CloudWatch itself. A non-empty result of the primary
  backend is returned as it is, with no further call; on an empty result the CloudWatch
  adapter runs next, in the state the primary adapter left, and its result is returned.
  All network calls of the run are calls of the primary backend followed by calls of
  CloudWatch. In particular, when the search engine is configured and enabled the
  DataPrime backend is never queried, whether the search returns entries or not.
\<close>

theorem cascade_primary_then_cloudwatch:
  assumes "truthy (ci_get s ''failed_container'')"
  shows "primary_backend w
           = (if elasticsearch_configured w then SearchEngine
              else if coralogix_configured w then DataPrime else CloudWatch)
       \<and> get_recent_logs w s
           = (if primary_backend w = CloudWatch then get_cloudwatch_logs w s
              else if fst (adapter w (primary_backend w) s) \<noteq> []
              then adapter w (primary_backend w) s
              else get_cloudwatch_logs w (snd (adapter w (primary_backend w) s)))
       \<and> (\<exists>s1. issued_only (primary_backend w) s s1
              \<and> issued_only CloudWatch s1 (snd (get_recent_logs w s))
              \<and> (fst (adapter w (primary_backend w) s) \<noteq> [] \<longrightarrow> s1 = snd (get_recent_logs w s)))
       \<and> (elasticsearch_configured w \<longrightarrow>
            (\<forall>c\<in>set (drop (length (calls s)) (calls (snd (get_recent_logs w s)))).
               backend_of_call c \<noteq> DataPrime))"
proof -
  have sel: "primary_backend w
           = (if elasticsearch_configured w then SearchEngine
              else if coralogix_configured w then DataPrime else CloudWatch)"
    by (simp add: primary_backend_def detect_log_destination_def)
  have cas: "get_recent_logs w s
           = (if primary_backend w = CloudWatch then get_cloudwatch_logs w s
              else if fst (adapter w (primary_backend w) s) \<noteq> []
              then adapter w (primary_backend w) s
              else get_cloudwatch_logs w (snd (adapter w (primary_backend w) s)))"
    using assms by (simp add: recent_logs_cascade)
  have own: "issued_only b s (snd (adapter w b s))" for b
    by (cases b) (simp_all add: es_calls cx_calls cw_calls)
  have ord: "\<exists>s1. issued_only (primary_backend w) s s1
              \<and> issued_only CloudWatch s1 (snd (get_recent_logs w s))
              \<and> (fst (adapter w (primary_backend w) s) \<noteq> [] \<longrightarrow> s1 = snd (get_recent_logs w s))"
  proof (cases "primary_backend w = CloudWatch")
    case True
    have "issued_only (primary_backend w) s (snd (get_recent_logs w s))"
      using own [of CloudWatch] True cas by simp
    then show ?thesis
      using issued_only_refl by blast
  next
    case False
    show ?thesis
    proof (cases "fst (adapter w (primary_backend w) s) \<noteq> []")
      case True
      have "issued_only (primary_backend w) s (snd (get_recent_logs w s))"
        using own [of "primary_backend w"] True False cas by simp
      then show ?thesis
        using issued_only_refl by blast
    next
      case empty: False
      have "issued_only CloudWatch (snd (adapter w (primary_backend w) s))
              (snd (get_recent_logs w s))"
        using cw_calls [of "snd (adapter w (primary_backend w) s)" w] empty False cas by simp
      then show ?thesis
        using own [of "primary_backend w"] empty by blast
    qed
  qed
  have nodp: "\<forall>c\<in>set (drop (length (calls s)) (calls (snd (get_recent_logs w s)))).
               backend_of_call c \<noteq> DataPrime" if es: "elasticsearch_configured w"
  proof -
    have p: "primary_backend w = SearchEngine"
      using sel es by simp
    from ord obtain s1 :: state and cs1 cs2 where
      "calls s1 = calls s @ cs1" "\<forall>c\<in>set cs1. backend_of_call c = SearchEngine"
      "calls (snd (get_recent_logs w s)) = calls s1 @ cs2"
      "\<forall>c\<in>set cs2. backend_of_call c = CloudWatch"
      unfolding issued_only_def p by blast
    then show ?thesis by auto
  qed
  show ?thesis
    using sel cas ord nodp by blast
qed

text \<open>
  The theorem at the concrete deployment: both backends are configured and enabled, the
  search finds nothing, and the result is that of the CloudWatch adapter.
\<close>

theorem cascade_primary_then_cloudwatch_witness:
  "truthy (ci_get demo_state ''failed_container'')
   \<and> elasticsearch_configured demo_world \<and> coralogix_configured demo_world
   \<and> fst (get_elasticsearch_logs demo_world demo_state) = []
   \<and> primary_backend demo_world = SearchEngine
   \<and> get_recent_logs demo_world demo_state
       = get_cloudwatch_logs demo_world (snd (get_elasticsearch_logs demo_world demo_state))
   \<and> DataPrime \<notin> set (map backend_of_call
         (drop (length (calls demo_state)) (calls (snd (get_recent_logs demo_world demo_state)))))"
proof -
  have h: "truthy (ci_get demo_state ''failed_container'')"
    by code_simp
  have c: "elasticsearch_configured demo_world" "coralogix_configured demo_world"
    by code_simp+
  have e: "fst (get_elasticsearch_logs demo_world demo_state) = []"
    by code_simp
  note th = cascade_primary_then_cloudwatch [OF h, of demo_world]
  have p: "primary_backend demo_world = SearchEngine"
    using th c by simp
  have r: "get_recent_logs demo_world demo_state
       = get_cloudwatch_logs demo_world (snd (get_elasticsearch_logs demo_world demo_state))"
    using th p e by simp
  have "\<forall>c\<in>set (drop (length (calls demo_state))
                  (calls (snd (get_recent_logs demo_world demo_state)))).
          backend_of_call c \<noteq> DataPrime"
    using th c by blast
  then have n: "DataPrime \<notin> set (map backend_of_call
         (drop (length (calls demo_state)) (calls (snd (get_recent_logs demo_world demo_state)))))"
    by force
  show ?thesis
    using h c e p r n by blast
qed

text \<open>
  \<^bold>\<open>C1\<close>, as stated, fails: with both backends configured and enabled, a task ARN present
  and an empty search result, the calls of the run are one search request followed by
  three CloudWatch calls; DataPrime is not attempted before CloudWatch.
\<close>

theorem dataprime_skipped_counterexample:
  "elasticsearch_configured demo_world \<and> coralogix_configured demo_world
   \<and> truthy (ci_get demo_state ''task_arn'')
   \<and> fst (get_elasticsearch_logs demo_world demo_state) = []
   \<and> map backend_of_call (calls (snd (get_recent_logs demo_world demo_state)))
       = [SearchEngine, CloudWatch, CloudWatch, CloudWatch]"
  by code_simp

text \<open>
  \<^bold>\<open>C2\<close>. Whenever \<open>get_recent_logs\<close> returns at least one entry, the entries and the final
  crash context are exactly what the adapter of one backend \<open>b\<close> returned, run either
  first (the primary backend) or as the CloudWatch fallback after the primary adapter
  came back empty, and \<open>log_source\<close> in the final context is the identity of \<open>b\<close>: the
  writes of the orchestrator after the adapter's return leave the context as the adapter
  left it.
\<close>

theorem hint_identifies_supplier:
  assumes "get_recent_logs w s = (logs, s')" and "logs \<noteq> []"
  shows "\<exists>b s0. (b = primary_backend w \<and> s0 = s
                  \<or> b = CloudWatch \<and> primary_backend w \<noteq> CloudWatch
                    \<and> adapter w (primary_backend w) s = ([], s0))
               \<and> adapter w b s0 = (logs, s')
               \<and> crash_info s' ''log_source'' = Some (JStr (backend_name b))"
proof -
  have hint: "crash_info s1 ''log_source'' = Some (JStr (backend_name b))"
    if "adapter w b s0 = (logs, s1)" for b s0 s1
    using that assms(2) by (cases b) (auto dest: es_hint cx_hint cw_hint)
  have fc: "truthy (ci_get s ''failed_container'')"
    using assms by (auto simp: get_recent_logs_def split: if_splits)
  note cas = recent_logs_cascade [of w s]
  show ?thesis
  proof (cases "primary_backend w = CloudWatch")
    case True
    then have "adapter w (primary_backend w) s = (logs, s')"
      using cas fc assms(1) by simp
    then show ?thesis
      using hint by blast
  next
    case False
    show ?thesis
    proof (cases "fst (adapter w (primary_backend w) s) \<noteq> []")
      case True
      then have "adapter w (primary_backend w) s = (logs, s')"
        using cas fc False assms(1) by simp
      then show ?thesis
        using hint by blast
    next
      case empty: False
      obtain s0 where s0: "adapter w (primary_backend w) s = ([], s0)"
        using empty by (cases "adapter w (primary_backend w) s") auto
      then have "adapter w CloudWatch s0 = (logs, s')"
        using cas fc False assms(1) by simp
      then show ?thesis
        using hint s0 False by blast
    qed
  qed
qed

text \<open>
  The theorem where the search engine supplies the entries, and where the search comes
  back empty and CloudWatch supplies them: the hint is then \<open>cloudwatch\<close>.
\<close>

theorem hint_identifies_supplier_witness:
  "fst (get_recent_logs es_hits_world demo_state) \<noteq> []
   \<and> (\<exists>b s0. (b = primary_backend es_hits_world \<and> s0 = demo_state
                \<or> b = CloudWatch \<and> primary_backend es_hits_world \<noteq> CloudWatch
                  \<and> adapter es_hits_world (primary_backend es_hits_world) demo_state = ([], s0))
             \<and> adapter es_hits_world b s0 = get_recent_logs es_hits_world demo_state
             \<and> crash_info (snd (get_recent_logs es_hits_world demo_state)) ''log_source''
                 = Some (JStr (backend_name b)))
   \<and> crash_info (snd (get_recent_logs es_hits_world demo_state)) ''log_source''
       = Some (JStr ''elasticsearch'')
   \<and> fst (get_elasticsearch_logs demo_world demo_state) = []
   \<and> fst (get_recent_logs demo_world demo_state) \<noteq> []
   \<and> (\<exists>b s0. (b = primary_backend demo_world \<and> s0 = demo_state
                \<or> b = CloudWatch \<and> primary_backend demo_world \<noteq> CloudWatch
                  \<and> adapter demo_world (primary_backend demo_world) demo_state = ([], s0))
             \<and> adapter demo_world b s0 = get_recent_logs demo_world demo_state
             \<and> crash_info (snd (get_recent_logs demo_world demo_state)) ''log_source''
                 = Some (JStr (backend_name b)))
   \<and> crash_info (snd (get_recent_logs demo_world demo_state)) ''log_source''
       = Some (JStr ''cloudwatch'')"
proof -
  have h: "fst (get_recent_logs es_hits_world demo_state) \<noteq> []"
    by code_simp
  have v: "crash_info (snd (get_recent_logs es_hits_world demo_state)) ''log_source''
       = Some (JStr ''elasticsearch'')"
    by code_simp
  have p: "get_recent_logs es_hits_world demo_state
       = (fst (get_recent_logs es_hits_world demo_state),
          snd (get_recent_logs es_hits_world demo_state))"
    by simp
  have e: "fst (get_elasticsearch_logs demo_world demo_state) = []"
    by code_simp
  have h': "fst (get_recent_logs demo_world demo_state) \<noteq> []"
    by code_simp
  have v': "crash_info (snd (get_recent_logs demo_world demo_state)) ''log_source''
       = Some (JStr ''cloudwatch'')"
    by code_simp
  have p': "get_recent_logs demo_world demo_state
       = (fst (get_recent_logs demo_world demo_state),
          snd (get_recent_logs demo_world demo_state))"
    by simp
  show ?thesis
    using hint_identifies_supplier [OF p h] hint_identifies_supplier [OF p' h'] h v e h' v'
    by simp
qed




text \<open>
  \<^bold>\<open>C4\<close>. For every crash context whose task ARN is absent or empty, \<open>get_recent_logs\<close>
  returns the empty list and leaves the state as it was: no network call is issued and
  the crash context is not written.
\<close>

theorem no_task_arn_no_network_call:
  assumes "\<not> truthy (ci_get s ''task_arn'')"
  shows "get_recent_logs w s = ([], s) \<and> calls (snd (get_recent_logs w s)) = calls s"
proof -
  have "adapter w b s = ([], s)" for b
    using assms by (cases b) (simp_all add: es_no_task cx_no_task cw_no_task)
  then have "get_recent_logs w s = ([], s)"
    using assms by (simp add: recent_logs_cascade cw_no_task)
  then show ?thesis by simp
qed

text \<open>
  The theorem at a crash with a failed container and an empty task ARN, and at the same
  crash with no task ARN at all.
\<close>

theorem no_task_arn_no_network_call_witness:
  "\<not> truthy (ci_get no_task_state ''task_arn'')
   \<and> truthy (ci_get no_task_state ''failed_container'')
   \<and> get_recent_logs demo_world no_task_state = ([], no_task_state)
   \<and> calls (snd (get_recent_logs demo_world no_task_state)) = []
   \<and> crash_info absent_task_state ''task_arn'' = None
   \<and> get_recent_logs demo_world absent_task_state = ([], absent_task_state)
   \<and> calls (snd (get_recent_logs demo_world absent_task_state)) = []"
proof -
  have h: "\<not> truthy (ci_get no_task_state ''task_arn'')"
    by code_simp
  have c: "truthy (ci_get no_task_state ''failed_container'')"
    by code_simp
  have a: "crash_info absent_task_state ''task_arn'' = None"
    by (simp add: absent_task_state_def)
  then have h': "\<not> truthy (ci_get absent_task_state ''task_arn'')"
    by (simp add: ci_get_def)
  have n: "calls no_task_state = []" "calls absent_task_state = []"
    by (simp_all add: no_task_state_def absent_task_state_def)
  show ?thesis
    using no_task_arn_no_network_call [OF h, of demo_world]
      no_task_arn_no_network_call [OF h', of demo_world] h c a n by simp
qed

end
